theory Spec2Isabelle
  imports Complex_Main "HOL-Library.Word" "HOL-Library.Signed_Division" "HOL-Library.AList"
begin

section \<open>Machine integers\<close>

text \<open>
  \<open>unsigned int\<close> is a 32-bit word and \<open>uint8_t\<close> an 8-bit word: sums and products of
  coordinates and sizes wrap around as they do in the source. An index into
  \<open>std::vector<uint8_t>\<close> is a \<open>size_t\<close>, read here as a natural number.
\<close>

type_synonym uint = "32 word"
type_synonym uint8 = "8 word"

datatype Format = RGB | RGBA | BGR | BGRA | Grayscale

section \<open>Single-precision values\<close>

text \<open>
  A \<open>float\<close> is represented by the real number it denotes; NaNs and infinities are not
  represented. \<open>fl\<close> is the rounding of a real number to the nearest binary32 value, ties
  to even: a \<open>float\<close> operation of the source is the exact operation followed by \<open>fl\<close>
  (IEEE 754 arithmetic evaluated in \<open>float\<close> precision, operation by operation).
  \<open>ulp_exp x\<close> is the exponent of the unit in the last place at \<open>x\<close>: 23 below the binary
  exponent of \<open>x\<close>, and -149 in the subnormal range. A result beyond the largest finite
  \<open>float\<close> is an infinity in the source; \<open>fl\<close> is used below that magnitude. The rounding
  is modelled in the luminance of a grayscale pixel and in the size of the blur kernel,
  where it decides a byte or a count; the sections on the kernel weights and on the
  gradient noise say where they use exact arithmetic instead.
\<close>

definition round_even :: "real \<Rightarrow> int" where
  "round_even y =
     (let n = \<lfloor>y\<rfloor>; d = y - of_int n
      in if d < 1 / 2 then n else if 1 / 2 < d then n + 1 else if even n then n else n + 1)"

definition ulp_exp :: "real \<Rightarrow> int" where
  "ulp_exp x = max \<lfloor>log 2 \<bar>x\<bar>\<rfloor> (- 126) - 23"

definition fl :: "real \<Rightarrow> real" where
  "fl x = (if x = 0 then 0 else of_int (round_even (x / 2 powi ulp_exp x)) * 2 powi ulp_exp x)"

text \<open>
  The conversion of a \<open>float\<close> to \<open>uint8_t\<close> (implicit in \<open>data_[index] = color.r\<close>, explicit
  in \<open>static_cast<uint8_t>\<close>) truncates towards zero; it is undefined when the truncated
  value is not a value of \<open>uint8_t\<close>, and the model returns \<open>None\<close> there. The conversion of
  a \<open>uint8_t\<close> to \<open>float\<close> is exact.
\<close>

definition trunc_zero :: "real \<Rightarrow> int" where
  "trunc_zero v = (if 0 \<le> v then \<lfloor>v\<rfloor> else \<lceil>v\<rceil>)"

definition to_uint8 :: "real \<Rightarrow> uint8 option" where
  "to_uint8 v = (if - 1 < v \<and> v < 256 then Some (word_of_int (trunc_zero v)) else None)"

definition of_uint8 :: "uint8 \<Rightarrow> real" where
  "of_uint8 v = real (unat v)"

section \<open>Pixel buffers (src/utils/image.hpp, src/utils/image.cpp)\<close>

text \<open>
  \<open>struct Color\<close> of core/math_types.hpp (the third file of src/unnamed/part_007) has four
  \<open>float\<close> channels, and its constructor gives every channel left out the value \<open>1.0f\<close>:
  \<open>Color()\<close> is \<open>(1, 1, 1, 1)\<close>, which is also \<open>Color::white()\<close>, and the three-argument
  constructor leaves alpha at 1. image.cpp moves channels to and from the byte buffer
  without scaling.
\<close>

datatype Color = Color (col_r: real) (col_g: real) (col_b: real) (col_a: real)

definition Color_default :: Color where
  "Color_default = Color 1 1 1 1"

definition Color_white :: Color where
  "Color_white = Color 1 1 1 1"

definition Color3 :: "real \<Rightarrow> real \<Rightarrow> real \<Rightarrow> Color" where
  "Color3 cr cg cb = Color cr cg cb 1"

record Image =
  width :: uint
  height :: uint
  format :: Format
  data :: "uint8 list"

fun getBytesPerPixel :: "Format \<Rightarrow> uint" where
  "getBytesPerPixel RGB = 3"
| "getBytesPerPixel RGBA = 4"
| "getBytesPerPixel BGR = 3"
| "getBytesPerPixel BGRA = 4"
| "getBytesPerPixel Grayscale = 1"

text \<open>
  \<open>std::vector::resize(n)\<close>: the first \<open>n\<close> elements are kept, and the vector is padded
  with value-initialised (zero) bytes when it grows.
\<close>

definition vector_resize :: "nat \<Rightarrow> uint8 list \<Rightarrow> uint8 list" where
  "vector_resize n xs = take n xs @ replicate (n - length xs) 0"

text \<open>The constructor \<open>Image(width, height, format)\<close> resizes an empty vector.\<close>

definition Image_new :: "uint \<Rightarrow> uint \<Rightarrow> Format \<Rightarrow> Image" where
  "Image_new w h f =
     \<lparr>width = w, height = h, format = f,
      data = vector_resize (unat (w * h * getBytesPerPixel f)) []\<rparr>"

text \<open>\<open>Image::create\<close> resizes the vector the image already owns.\<close>

definition create :: "Image \<Rightarrow> uint \<Rightarrow> uint \<Rightarrow> Format \<Rightarrow> Image" where
  "create img w h f =
     \<lparr>width = w, height = h, format = f,
      data = vector_resize (unat (w * h * getBytesPerPixel f)) (data img)\<rparr>"

definition getPixelIndex :: "Image \<Rightarrow> uint \<Rightarrow> uint \<Rightarrow> nat" where
  "getPixelIndex img px py =
     unat ((py * width img + px) * getBytesPerPixel (format img))"

text \<open>
  Reading or writing \<open>data_[i]\<close> past the end of the vector is undefined behaviour in the
  source; the model returns \<open>None\<close> there, as it does for an undefined conversion.
\<close>

definition store :: "uint8 list \<Rightarrow> nat \<Rightarrow> uint8 \<Rightarrow> uint8 list option" where
  "store xs i v = (if i < length xs then Some (xs[i := v]) else None)"

definition load :: "uint8 list \<Rightarrow> nat \<Rightarrow> uint8 option" where
  "load xs i = (if i < length xs then Some (xs ! i) else None)"

text \<open>
  The Grayscale format stores
  \<open>static_cast<uint8_t>(0.299f * color.r + 0.587f * color.g + 0.114f * color.b)\<close>: the
  three literals are the \<open>float\<close>s nearest to the decimal fractions, the products are
  rounded, and the sum is taken from the left with a rounding after each addition (no
  fused multiply-add and no wider intermediate precision).
\<close>

definition luminance :: "Color \<Rightarrow> uint8 option" where
  "luminance c =
     to_uint8
       (fl (fl (fl (fl (299 / 1000) * col_r c) + fl (fl (587 / 1000) * col_g c)) +
            fl (fl (114 / 1000) * col_b c)))"

text \<open>Consecutive byte writes \<open>data_[index] = v0; data_[index + 1] = v1; ...\<close>.\<close>

fun store_bytes :: "uint8 list \<Rightarrow> nat \<Rightarrow> uint8 list \<Rightarrow> uint8 list option" where
  "store_bytes xs i [] = Some xs"
| "store_bytes xs i (v # vs) =
     (case store xs i v of None \<Rightarrow> None | Some ys \<Rightarrow> store_bytes ys (i + 1) vs)"

text \<open>The bytes \<open>setPixelUnsafe\<close> writes for a colour, in the order it writes them.\<close>

definition encode :: "Format \<Rightarrow> Color \<Rightarrow> uint8 list option" where
  "encode f c =
     (case f of
        RGB \<Rightarrow> those [to_uint8 (col_r c), to_uint8 (col_g c), to_uint8 (col_b c)]
      | RGBA \<Rightarrow>
          those [to_uint8 (col_r c), to_uint8 (col_g c), to_uint8 (col_b c), to_uint8 (col_a c)]
      | BGR \<Rightarrow> those [to_uint8 (col_b c), to_uint8 (col_g c), to_uint8 (col_r c)]
      | BGRA \<Rightarrow>
          those [to_uint8 (col_b c), to_uint8 (col_g c), to_uint8 (col_r c), to_uint8 (col_a c)]
      | Grayscale \<Rightarrow> those [luminance c])"

definition setPixelUnsafe :: "Image \<Rightarrow> uint \<Rightarrow> uint \<Rightarrow> Color \<Rightarrow> Image option" where
  "setPixelUnsafe img px py c =
     (case encode (format img) c of
        None \<Rightarrow> None
      | Some vs \<Rightarrow>
          map_option (\<lambda>d. img\<lparr>data := d\<rparr>)
            (store_bytes (data img) (getPixelIndex img px py) vs))"

definition getPixelUnsafe :: "Image \<Rightarrow> uint \<Rightarrow> uint \<Rightarrow> Color option" where
  "getPixelUnsafe img px py =
     (let i = getPixelIndex img px py; d = data img in
      case format img of
        RGB \<Rightarrow>
          Option.bind (load d i) (\<lambda>v0. Option.bind (load d (i + 1)) (\<lambda>v1.
          Option.bind (load d (i + 2)) (\<lambda>v2.
          Some (Color3 (of_uint8 v0) (of_uint8 v1) (of_uint8 v2)))))
      | RGBA \<Rightarrow>
          Option.bind (load d i) (\<lambda>v0. Option.bind (load d (i + 1)) (\<lambda>v1.
          Option.bind (load d (i + 2)) (\<lambda>v2. Option.bind (load d (i + 3)) (\<lambda>v3.
          Some (Color (of_uint8 v0) (of_uint8 v1) (of_uint8 v2) (of_uint8 v3))))))
      | BGR \<Rightarrow>
          Option.bind (load d (i + 2)) (\<lambda>v2. Option.bind (load d (i + 1)) (\<lambda>v1.
          Option.bind (load d i) (\<lambda>v0.
          Some (Color3 (of_uint8 v2) (of_uint8 v1) (of_uint8 v0)))))
      | BGRA \<Rightarrow>
          Option.bind (load d (i + 2)) (\<lambda>v2. Option.bind (load d (i + 1)) (\<lambda>v1.
          Option.bind (load d i) (\<lambda>v0. Option.bind (load d (i + 3)) (\<lambda>v3.
          Some (Color (of_uint8 v2) (of_uint8 v1) (of_uint8 v0) (of_uint8 v3))))))
      | Grayscale \<Rightarrow>
          Option.bind (load d i) (\<lambda>v0.
          Some (Color3 (of_uint8 v0) (of_uint8 v0) (of_uint8 v0))))"

text \<open>The bounds-checked accessors.\<close>

definition setPixel :: "Image \<Rightarrow> uint \<Rightarrow> uint \<Rightarrow> Color \<Rightarrow> Image option" where
  "setPixel img px py c =
     (if px < width img \<and> py < height img then setPixelUnsafe img px py c
      else Some img)"

definition getPixel :: "Image \<Rightarrow> uint \<Rightarrow> uint \<Rightarrow> Color option" where
  "getPixel img px py =
     (if px < width img \<and> py < height img then getPixelUnsafe img px py
      else Some Color_default)"

section \<open>Texture atlas\<close>

text \<open>
  \<open>addTexture\<close> and \<open>optimize\<close> build a \<open>Rect\<close> from four \<open>unsigned int\<close> values, read its
  fields \<open>x\<close>, \<open>y\<close>, \<open>width\<close> and \<open>height\<close>, and pass \<open>height\<close> to \<open>std::max\<close> next to an
  \<open>unsigned int\<close>. The \<open>Rect\<close> of core/math_types.hpp (a position and a size vector) has
  neither that constructor nor those fields, so the rectangle of the atlas is modelled
  as image.cpp uses it: four \<open>unsigned int\<close> fields, the origin first.
\<close>

datatype Rect = Rect (rect_x: uint) (rect_y: uint) (rect_width: uint) (rect_height: uint)

record Region =
  bounds :: Rect
  name :: string

text \<open>
  \<open>regionMap_\<close> is a \<open>std::unordered_map<std::string, size_t>\<close>: an association list
  with unique keys, read with \<open>map_of\<close> (\<open>find\<close>) and written with \<open>AList.update\<close>
  (\<open>operator[]\<close> followed by assignment).
\<close>

record TextureAtlas =
  atlasImage :: Image
  regions :: "Region list"
  regionMap :: "(string \<times> nat) list"

definition TextureAtlas_new :: "uint \<Rightarrow> uint \<Rightarrow> TextureAtlas" where
  "TextureAtlas_new w h =
     \<lparr>atlasImage = Image_new w h RGBA, regions = [], regionMap = []\<rparr>"

text \<open>
  One round of the rescan loop of \<open>addTexture\<close> over an already placed region; the state
  is \<open>(currentX, currentY, maxRowHeight)\<close>, \<open>tw\<close> the new texture's width and \<open>aw\<close> the
  atlas width.
\<close>

definition packStep :: "uint \<Rightarrow> uint \<Rightarrow> uint \<times> uint \<times> uint \<Rightarrow> Region \<Rightarrow> uint \<times> uint \<times> uint" where
  "packStep tw aw cur region =
     (case cur of (currentX, currentY, maxRowHeight) \<Rightarrow>
        (case (if currentX + tw > aw then (0, currentY + maxRowHeight, 0)
               else (currentX, currentY, maxRowHeight)) of
           (cx, cy, mrh) \<Rightarrow>
             (cx + rect_width (bounds region), cy, max mrh (rect_height (bounds region)))))"

definition packCursor :: "uint \<Rightarrow> uint \<Rightarrow> Region list \<Rightarrow> uint \<times> uint \<times> uint" where
  "packCursor tw aw rs = foldl (packStep tw aw) (0, 0, 0) rs"

text \<open>The pixels of a \<open>w\<close> by \<open>h\<close> block in the order of the copy loops: rows outside.\<close>

definition texels :: "uint \<Rightarrow> uint \<Rightarrow> (uint \<times> uint) list" where
  "texels w h =
     concat (map (\<lambda>ty. map (\<lambda>tx. (of_nat tx, of_nat ty)) [0..<unat w]) [0..<unat h])"

fun copyPixels :: "Image \<Rightarrow> Image \<Rightarrow> uint \<Rightarrow> uint \<Rightarrow> (uint \<times> uint) list \<Rightarrow> Image option" where
  "copyPixels dst src ox oy [] = Some dst"
| "copyPixels dst src ox oy ((tx, ty) # ps) =
     (case getPixel src tx ty of
        None \<Rightarrow> None
      | Some c \<Rightarrow>
          (case setPixel dst (ox + tx) (oy + ty) c of
             None \<Rightarrow> None
           | Some dst' \<Rightarrow> copyPixels dst' src ox oy ps))"

text \<open>
  \<open>addTexture\<close> returns the flag of the source together with the atlas after the call;
  \<open>None\<close> stands for undefined behaviour in the pixel copy.
\<close>

definition addTexture :: "TextureAtlas \<Rightarrow> string \<Rightarrow> Image \<Rightarrow> (bool \<times> TextureAtlas) option" where
  "addTexture atlas nm texture =
     (if map_of (regionMap atlas) nm \<noteq> None then Some (False, atlas)
      else
        (case packCursor (width texture) (width (atlasImage atlas)) (regions atlas) of
           (currentX, currentY, maxRowHeight) \<Rightarrow>
             if currentY + height texture > height (atlasImage atlas) then Some (False, atlas)
             else
               (case copyPixels (atlasImage atlas) texture currentX currentY
                       (texels (width texture) (height texture)) of
                  None \<Rightarrow> None
                | Some img \<Rightarrow>
                    Some (True,
                      atlas\<lparr>atlasImage := img,
                        regions := regions atlas @
                          [\<lparr>bounds = Rect currentX currentY (width texture) (height texture),
                            name = nm\<rparr>],
                        regionMap := AList.update nm (length (regions atlas)) (regionMap atlas)\<rparr>))))"

definition getRegion :: "TextureAtlas \<Rightarrow> string \<Rightarrow> Region option" where
  "getRegion atlas nm =
     (case map_of (regionMap atlas) nm of
        None \<Rightarrow> None
      | Some i \<Rightarrow> if i < length (regions atlas) then Some (regions atlas ! i) else None)"

definition clear :: "TextureAtlas \<Rightarrow> TextureAtlas" where
  "clear atlas =
     \<lparr>atlasImage =
        create (atlasImage atlas) (width (atlasImage atlas)) (height (atlasImage atlas))
          (format (atlasImage atlas)),
      regions = [], regionMap = []\<rparr>"

text \<open>A run of \<open>addTexture\<close> calls on one atlas, in order, with the flag of each call.\<close>

fun addTextures :: "TextureAtlas \<Rightarrow> (string \<times> Image) list \<Rightarrow> (bool list \<times> TextureAtlas) option" where
  "addTextures atlas [] = Some ([], atlas)"
| "addTextures atlas ((nm, texture) # rest) =
     (case addTexture atlas nm texture of
        None \<Rightarrow> None
      | Some (ok, atlas') \<Rightarrow>
          (case addTextures atlas' rest of
             None \<Rightarrow> None
           | Some (oks, atlas'') \<Rightarrow> Some (ok # oks, atlas'')))"

section \<open>Gaussian blur kernel\<close>

text \<open>
  \<open>applyGaussianBlur\<close>: \<open>kernelSize = static_cast<int>(std::ceil(sigma * 6))\<close>. The
  product is a \<open>float\<close> product, rounded to single precision before \<open>std::ceil\<close> is
  applied; \<open>std::ceil\<close> of a \<open>float\<close> is exact. The conversion to \<open>int\<close> is defined as
  long as the value is below \<open>2^31\<close>, and the definition is used in that range only.
\<close>

definition kernelSize :: "real \<Rightarrow> int" where
  "kernelSize sigma = \<lceil>fl (sigma * 6)\<rceil>"



text \<open>
  The source position of tap \<open>i\<close> in both passes, \<open>int srcX = x + i - kernelSize / 2\<close>:
  \<open>x\<close> is unsigned, so the sum is taken in unsigned arithmetic and then read as an \<open>int\<close>;
  \<open>kernelSize / 2\<close> is the truncating division of two \<open>int\<close>s.
\<close>

definition srcCoord :: "uint \<Rightarrow> int \<Rightarrow> int \<Rightarrow> int" where
  "srcCoord px i ks = sint (px + word_of_int i - word_of_int (ks sdiv 2))"

text \<open>The offsets from pixel \<open>px\<close> of the positions the \<open>ks\<close> taps sample, in tap order.\<close>

definition tapOffsets :: "uint \<Rightarrow> int \<Rightarrow> int list" where
  "tapOffsets px ks = map (\<lambda>i. srcCoord px i ks - uint px) [0..ks - 1]"

section \<open>Gradient noise\<close>

text \<open>
  In the octave loop of \<open>generatePerlinNoise\<close> the floating-point operations and the
  library functions \<open>std::cos\<close>, \<open>std::sin\<close>, \<open>std::pow\<close> and \<open>std::floor\<close> are modelled by
  the exact operations on real numbers: rounding is not modelled there. The statements
  proved below do not depend on the values these operations produce beyond their being
  zero, equal or different.
\<close>

text \<open>
  \<open>generatePerlinNoise\<close> has the parameters \<open>width\<close>, \<open>height\<close>, \<open>scale\<close> and \<open>octaves\<close>.
  Its generator is a \<open>std::mt19937\<close> seeded from \<open>std::random_device\<close>; the values
  \<open>dis(gen)\<close> returns, in call order, are the additional argument \<open>draws\<close> of the model.
\<close>

definition fade :: "real \<Rightarrow> real" where
  "fade t = t * t * t * (t * (t * 6 - 15) + 10)"

definition lerp :: "real \<Rightarrow> real \<Rightarrow> real \<Rightarrow> real" where
  "lerp t v0 v1 = v0 + t * (v1 - v0)"

definition gradients :: "(nat \<Rightarrow> real) \<Rightarrow> (real \<times> real) list" where
  "gradients draws =
     map (\<lambda>i. let angle = draws i * 2 * 3.14159 in (cos angle, sin angle)) [0..<256]"

text \<open>
  The value one octave adds at pixel \<open>(px, py)\<close> before it is scaled by the amplitude.
  \<open>(x0 + y0) & 255\<close> is the residue modulo 256 of the \<open>int\<close> sum.
\<close>

definition octaveValue :: "(real \<times> real) list \<Rightarrow> uint \<Rightarrow> uint \<Rightarrow> real \<Rightarrow> nat \<Rightarrow> uint \<Rightarrow> uint \<Rightarrow> real" where
  "octaveValue grads w h scale octave px py =
     (let frequency = 2 ^ octave;
          fx = real (unat px) * scale * frequency / real (unat w);
          fy = real (unat py) * scale * frequency / real (unat h);
          x0 = \<lfloor>fx\<rfloor>; y0 = \<lfloor>fy\<rfloor>;
          x1 = x0 + 1; y1 = y0 + 1;
          tx = fade (fx - real_of_int x0);
          ty = fade (fy - real_of_int y0);
          g00 = grads ! nat ((x0 + y0) mod 256);
          g10 = grads ! nat ((x1 + y0) mod 256);
          g01 = grads ! nat ((x0 + y1) mod 256);
          g11 = grads ! nat ((x1 + y1) mod 256);
          n00 = fst g00 * (fx - real_of_int x0) + snd g00 * (fy - real_of_int y0);
          n10 = fst g10 * (fx - real_of_int x1) + snd g10 * (fy - real_of_int y0);
          n01 = fst g01 * (fx - real_of_int x0) + snd g01 * (fy - real_of_int y1);
          n11 = fst g11 * (fx - real_of_int x1) + snd g11 * (fy - real_of_int y1);
          nx0 = lerp tx n00 n10;
          nx1 = lerp tx n01 n11
      in lerp ty nx0 nx1)"

text \<open>
  \<open>noise[x][y]\<close> after the octave loop \<open>for (int octave = 0; octave < octaves; ++octave)\<close>:
  the accumulator starts at zero and receives \<open>value * amplitude\<close> once per octave, in
  ascending order; there is no round for \<open>octaves \<le> 0\<close>.
\<close>

definition noiseAt :: "(real \<times> real) list \<Rightarrow> uint \<Rightarrow> uint \<Rightarrow> real \<Rightarrow> int \<Rightarrow> uint \<Rightarrow> uint \<Rightarrow> real" where
  "noiseAt grads w h scale octaves px py =
     fold (\<lambda>octave acc. acc + octaveValue grads w h scale octave px py * (1 / 2) ^ octave)
       [0..<nat octaves] 0"

text \<open>\<open>std::numeric_limits<float>::max()\<close>; \<open>lowest()\<close> is its negation.\<close>

definition FLT_MAX :: real where
  "FLT_MAX = (2 ^ 24 - 1) * 2 ^ 104"

text \<open>
  The faults of \<open>generatePerlinNoise\<close>: an access past the end of a pixel vector, and the
  normalisation \<open>(noise[x][y] - minVal) / range\<close> with \<open>range\<close> (here \<open>rangeVal\<close>) zero. There the numerator is
  zero as well (every value lies between \<open>minVal\<close> and \<open>maxVal\<close>), the quotient is a NaN and
  its conversion to \<open>uint8_t\<close> is undefined.
\<close>

datatype fault = OutOfRange | ZeroRange

fun normalizePixels :: "Image \<Rightarrow> (uint \<Rightarrow> uint \<Rightarrow> real) \<Rightarrow> real \<Rightarrow> real \<Rightarrow> (uint \<times> uint) list \<Rightarrow> fault + Image" where
  "normalizePixels result noise minVal rangeVal [] = Inr result"
| "normalizePixels result noise minVal rangeVal ((px, py) # ps) =
     (if rangeVal = 0 then Inl ZeroRange
      else
        (let normalizedValue = (noise px py - minVal) / rangeVal;
             pixel = word_of_int \<lfloor>normalizedValue * 255\<rfloor>
         in case setPixel result px py (Color3 (of_uint8 pixel) (of_uint8 pixel) (of_uint8 pixel)) of
              None \<Rightarrow> Inl OutOfRange
            | Some result' \<Rightarrow> normalizePixels result' noise minVal rangeVal ps))"

definition generatePerlinNoise :: "(nat \<Rightarrow> real) \<Rightarrow> uint \<Rightarrow> uint \<Rightarrow> real \<Rightarrow> int \<Rightarrow> fault + Image" where
  "generatePerlinNoise draws w h scale octaves =
     (let result = Image_new w h Grayscale;
          noise = noiseAt (gradients draws) w h scale octaves;
          minVal = fold (\<lambda>(px, py) m. min m (noise px py)) (texels w h) FLT_MAX;
          maxVal = fold (\<lambda>(px, py) m. max m (noise px py)) (texels w h) (- FLT_MAX);
          rangeVal = maxVal - minVal
      in normalizePixels result noise minVal rangeVal (texels w h))"

section \<open>Properties of images and atlases\<close>

text \<open>
  The data-model invariant of a pixel buffer: the vector holds \<open>width * height *
  bytesPerPixel\<close> bytes, the product taken without wrap-around.
\<close>

definition wf_image :: "Image \<Rightarrow> bool" where
  "wf_image img =
     (length (data img) =
        unat (width img) * unat (height img) * unat (getBytesPerPixel (format img))
      \<and> unat (width img) * unat (height img) * unat (getBytesPerPixel (format img)) < 2 ^ 32)"

text \<open>
  The outcome of \<open>addTexture\<close> on names and sizes alone: \<open>aw\<close>, \<open>ah\<close> are the atlas
  dimensions, \<open>tw\<close>, \<open>th\<close> the texture's. It is \<open>addTexture\<close> without the pixel copy
  (lemma \<open>addTexture_placeRegion\<close>).
\<close>

definition placeRegion :: "uint \<Rightarrow> uint \<Rightarrow> Region list \<times> (string \<times> nat) list \<Rightarrow> string \<times> uint \<times> uint \<Rightarrow> bool \<times> Region list \<times> (string \<times> nat) list" where
  "placeRegion aw ah st item =
     (case st of (rs, m) \<Rightarrow>
        (case item of (nm, tw, th) \<Rightarrow>
           if map_of m nm \<noteq> None then (False, rs, m)
           else
             (case packCursor tw aw rs of
                (currentX, currentY, maxRowHeight) \<Rightarrow>
                  if currentY + th > ah then (False, rs, m)
                  else (True, rs @ [\<lparr>bounds = Rect currentX currentY tw th, name = nm\<rparr>],
                        AList.update nm (length rs) m))))"

fun placeRegions :: "uint \<Rightarrow> uint \<Rightarrow> Region list \<times> (string \<times> nat) list \<Rightarrow> (string \<times> uint \<times> uint) list \<Rightarrow> bool list \<times> Region list \<times> (string \<times> nat) list" where
  "placeRegions aw ah st [] = ([], st)"
| "placeRegions aw ah st (item # items) =
     (case placeRegion aw ah st item of
        (ok, st') \<Rightarrow> (case placeRegions aw ah st' items of (oks, st'') \<Rightarrow> (ok # oks, st'')))"

definition placed :: "TextureAtlas \<Rightarrow> (string \<times> Rect) list" where
  "placed atlas = map (\<lambda>r. (name r, bounds r)) (regions atlas)"

text \<open>
  The atlas invariant of the data model: every region inside the image, no two regions
  overlapping, and the name index agreeing with the region sequence. Coordinates are
  compared as natural numbers, so that a rectangle reaching past the 32-bit range does
  not count as inside.
\<close>

definition rect_inside :: "Image \<Rightarrow> Rect \<Rightarrow> bool" where
  "rect_inside img rc =
     (unat (rect_x rc) + unat (rect_width rc) \<le> unat (width img) \<and>
      unat (rect_y rc) + unat (rect_height rc) \<le> unat (height img))"

definition rects_overlap :: "Rect \<Rightarrow> Rect \<Rightarrow> bool" where
  "rects_overlap p q =
     (unat (rect_x p) < unat (rect_x q) + unat (rect_width q) \<and>
      unat (rect_x q) < unat (rect_x p) + unat (rect_width p) \<and>
      unat (rect_y p) < unat (rect_y q) + unat (rect_height q) \<and>
      unat (rect_y q) < unat (rect_y p) + unat (rect_height p))"

fun some_overlap :: "Rect list \<Rightarrow> bool" where
  "some_overlap [] = False"
| "some_overlap (p # ps) = (list_ex (rects_overlap p) ps \<or> some_overlap ps)"

definition index_consistent :: "TextureAtlas \<Rightarrow> bool" where
  "index_consistent atlas =
     (list_all (\<lambda>(i, rg). map_of (regionMap atlas) (name rg) = Some i)
        (zip [0..<length (regions atlas)] (regions atlas)) \<and>
      list_all (\<lambda>(nm, i). i < length (regions atlas) \<and> name (regions atlas ! i) = nm)
        (regionMap atlas))"

definition atlas_invariant :: "TextureAtlas \<Rightarrow> bool" where
  "atlas_invariant atlas =
     (list_all (rect_inside (atlasImage atlas)) (map bounds (regions atlas)) \<and>
      \<not> some_overlap (map bounds (regions atlas)) \<and>
      index_consistent atlas)"


definition convertible :: "Color \<Rightarrow> bool" where
  "convertible c =
     (- 1 < col_r c \<and> col_r c < 256 \<and> - 1 < col_g c \<and> col_g c < 256 \<and>
      - 1 < col_b c \<and> col_b c < 256 \<and> - 1 < col_a c \<and> col_a c < 256)"

text \<open>The names and sizes of the textures of a run of \<open>addTexture\<close> calls.\<close>

definition sizes :: "(string \<times> Image) list \<Rightarrow> (string \<times> uint \<times> uint) list" where
  "sizes items = map (\<lambda>(nm, texture). (nm, width texture, height texture)) items"

text \<open>A one-pixel RGBA image whose four bytes are 255.\<close>

definition white1 :: Image where
  "white1 = \<lparr>width = 1, height = 1, format = RGBA, data = [255, 255, 255, 255]\<rparr>"

section \<open>Single-precision rounding\<close>

lemma ulp_exp_normal:
  assumes "2 powi e \<le> \<bar>x\<bar>" and "\<bar>x\<bar> < 2 powi (e + 1)" and "- 126 \<le> e"
  shows "ulp_exp x = e - 23"
proof -
  have "(0::real) < 2 powi e" by simp
  then have pos: "0 < \<bar>x\<bar>" using assms(1) by linarith
  have p1: "(2::real) powr real_of_int e = 2 powi e"
    by (simp add: powr_real_of_int')
  have p2: "(2::real) powr (real_of_int e + 1) = 2 powi (e + 1)"
    using powr_real_of_int' [of 2 "e + 1"] by simp
  have "\<lfloor>log 2 \<bar>x\<bar>\<rfloor> = e"
    using floor_log_eq_powr_iff [of "\<bar>x\<bar>" 2 e] pos assms(1,2) by (simp add: p1 p2)
  then show ?thesis using assms(3) by (simp add: ulp_exp_def)
qed

lemma fl_normal:
  assumes "2 powi e \<le> \<bar>x\<bar>" and "\<bar>x\<bar> < 2 powi (e + 1)" and "- 126 \<le> e"
  shows "fl x = of_int (round_even (x / 2 powi (e - 23))) * 2 powi (e - 23)"
proof -
  have "(0::real) < 2 powi e" by simp
  then have "0 < \<bar>x\<bar>" using assms(1) by linarith
  then have "x \<noteq> 0" by simp
  then show ?thesis by (simp add: fl_def ulp_exp_normal [OF assms])
qed

lemma fl_zero: "fl 0 = 0"
  by (simp add: fl_def)

lemma fl_299: "fl (299 / 1000) = 10032775 / 2 ^ 25"
  using fl_normal [of "- 2" "299 / 1000"] by (simp add: round_even_def Let_def power_int_minus)

lemma fl_587: "fl (587 / 1000) = 4924113 / 2 ^ 23"
  using fl_normal [of "- 1" "587 / 1000"] by (simp add: round_even_def Let_def power_int_minus)

lemma fl_114: "fl (114 / 1000) = 15300821 / 2 ^ 27"
  using fl_normal [of "- 4" "114 / 1000"] by (simp add: round_even_def Let_def power_int_minus)

lemma of_uint8_range: "0 \<le> of_uint8 v" "of_uint8 v < 256"
proof -
  have "unat v < 2 ^ LENGTH(8)" by (rule unsigned_less)
  then have "unat v < 256" by simp
  then have "real (unat v) < real 256" by (simp only: of_nat_less_iff)
  then show "of_uint8 v < 256" unfolding of_uint8_def by simp
  show "0 \<le> of_uint8 v" unfolding of_uint8_def by (rule of_nat_0_le_iff)
qed


lemma to_uint8_one: "to_uint8 1 = Some 1"
  by (simp add: to_uint8_def trunc_zero_def)


lemma luminance_8_80_32: "luminance (Color 8 80 32 a) = Some 52"
proof -
  have t1: "fl (10032775 / 2 ^ 25 * 8) = 10032775 / 2 ^ 22"
    using fl_normal [of 1 "10032775 / 2 ^ 25 * 8"]
    by (simp add: round_even_def Let_def power_int_minus)
  have t2: "fl (4924113 / 2 ^ 23 * 80) = 6155141 / 2 ^ 17"
    using fl_normal [of 5 "4924113 / 2 ^ 23 * 80"]
    by (simp add: round_even_def Let_def power_int_minus)
  have t3: "fl (15300821 / 2 ^ 27 * 32) = 15300821 / 2 ^ 22"
    using fl_normal [of 1 "15300821 / 2 ^ 27 * 32"]
    by (simp add: round_even_def Let_def power_int_minus)
  have s1: "fl (10032775 / 2 ^ 22 + 6155141 / 2 ^ 17) = 6468665 / 2 ^ 17"
    using fl_normal [of 5 "10032775 / 2 ^ 22 + 6155141 / 2 ^ 17"]
    by (simp add: round_even_def Let_def power_int_minus)
  have s2: "fl (6468665 / 2 ^ 17 + 15300821 / 2 ^ 22) = 13893631 / 2 ^ 18"
    using fl_normal [of 5 "6468665 / 2 ^ 17 + 15300821 / 2 ^ 22"]
    by (simp add: round_even_def Let_def power_int_minus)
  have "luminance (Color 8 80 32 a) = to_uint8 (13893631 / 2 ^ 18)"
    by (simp only: luminance_def Color.sel fl_299 fl_587 fl_114 t1 t2 t3 s1 s2)
  then show ?thesis by (simp add: to_uint8_def trunc_zero_def)
qed

lemma luminance_255: "luminance (Color 255 255 255 a) = Some 255"
proof -
  have t1: "fl (10032775 / 2 ^ 25 * 255) = 624599 / 2 ^ 13"
    using fl_normal [of 6 "10032775 / 2 ^ 25 * 255"]
    by (simp add: round_even_def Let_def power_int_minus)
  have t2: "fl (4924113 / 2 ^ 23 * 255) = 2452439 / 2 ^ 14"
    using fl_normal [of 7 "4924113 / 2 ^ 23 * 255"]
    by (simp add: round_even_def Let_def power_int_minus)
  have t3: "fl (15300821 / 2 ^ 27 * 255) = 3810263 / 2 ^ 17"
    using fl_normal [of 4 "15300821 / 2 ^ 27 * 255"]
    by (simp add: round_even_def Let_def power_int_minus)
  have s1: "fl (624599 / 2 ^ 13 + 2452439 / 2 ^ 14) = 3701637 / 2 ^ 14"
    using fl_normal [of 7 "624599 / 2 ^ 13 + 2452439 / 2 ^ 14"]
    by (simp add: round_even_def Let_def power_int_minus)
  have s2: "fl (3701637 / 2 ^ 14 + 3810263 / 2 ^ 17) = 255"
    using fl_normal [of 7 "3701637 / 2 ^ 14 + 3810263 / 2 ^ 17"]
    by (simp add: round_even_def Let_def power_int_minus)
  have "luminance (Color 255 255 255 a) = to_uint8 255"
    by (simp only: luminance_def Color.sel fl_299 fl_587 fl_114 t1 t2 t3 s1 s2)
  then show ?thesis by (simp add: to_uint8_def trunc_zero_def)
qed

lemma luminance_0: "luminance (Color 0 0 0 a) = Some 0"
  by (simp add: luminance_def fl_zero to_uint8_def trunc_zero_def)

text \<open>
  The stored luminance is not the integer part of the exact weighted sum: for the
  channels 8, 80 and 32 the exact sum is 53, the single-precision sum lies just below
  it, and the byte is 52.
\<close>

lemma luminance_below_exact:
  "299 / 1000 * 8 + 587 / 1000 * 80 + 114 / 1000 * 32 = (53::real) \<and>
   luminance (Color 8 80 32 255) = Some 52"
  by (simp add: luminance_8_80_32)

section \<open>Pixel access\<close>

lemma unat_bpp_pos: "0 < unat (getBytesPerPixel f)"
  by (cases f) simp_all

lemma pixel_nat_bound:
  fixes X Y W H B :: nat
  assumes "X < W" "Y < H"
  shows "(Y * W + X) * B + B \<le> W * H * B"
proof -
  have "Y * W + X + 1 \<le> Y * W + W" using assms by simp
  also have "\<dots> = (Y + 1) * W" by simp
  also have "\<dots> \<le> H * W" using assms by (intro mult_le_mono1) simp
  finally have "(Y * W + X + 1) * B \<le> (H * W) * B" by (rule mult_le_mono1)
  then show ?thesis by (simp add: algebra_simps)
qed

lemma getPixelIndex_nat:
  assumes wf: "wf_image img" and x: "px < width img" and y: "py < height img"
  shows "getPixelIndex img px py =
           (unat py * unat (width img) + unat px) * unat (getBytesPerPixel (format img))"
    and "getPixelIndex img px py + unat (getBytesPerPixel (format img)) \<le> length (data img)"
proof -
  let ?W = "unat (width img)" and ?H = "unat (height img)"
  let ?B = "unat (getBytesPerPixel (format img))"
  let ?X = "unat px" and ?Y = "unat py"
  have X: "?X < ?W" and Y: "?Y < ?H" using x y by (simp_all add: word_less_nat_alt)
  have len: "length (data img) = ?W * ?H * ?B" and small: "?W * ?H * ?B < 2 ^ 32"
    using wf by (simp_all add: wf_image_def)
  have B: "0 < ?B" by (rule unat_bpp_pos)
  have bound: "(?Y * ?W + ?X) * ?B + ?B \<le> ?W * ?H * ?B"
    using X Y by (rule pixel_nat_bound)
  have lt: "(?Y * ?W + ?X) * ?B < 2 ^ 32" using bound small B by linarith
  have "?Y * ?W + ?X \<le> (?Y * ?W + ?X) * ?B" using B by simp
  then have lt2: "?Y * ?W + ?X < 2 ^ 32" using lt by linarith
  then have lt3: "?Y * ?W < 2 ^ 32" by linarith
  have m1: "unat (py * width img) = ?Y * ?W"
    using lt3 by (simp add: unat_mult_lem [THEN iffD1])
  have a1: "unat (py * width img + px) = ?Y * ?W + ?X"
    using lt2 m1 by (simp add: unat_add_lem [THEN iffD1])
  have "unat ((py * width img + px) * getBytesPerPixel (format img)) = (?Y * ?W + ?X) * ?B"
    using lt a1 by (simp add: unat_mult_lem [THEN iffD1])
  then show "getPixelIndex img px py = (?Y * ?W + ?X) * ?B"
    by (simp add: getPixelIndex_def)
  then show "getPixelIndex img px py + ?B \<le> length (data img)"
    using bound len by simp
qed

lemma store_bytes_ok:
  "i + length vs \<le> length xs \<Longrightarrow>
     store_bytes xs i vs = Some (take i xs @ vs @ drop (i + length vs) xs)"
proof (induction vs arbitrary: xs i)
  case Nil
  then show ?case by simp
next
  case (Cons v vs)
  have i: "i < length xs" using Cons.prems by simp
  have step: "store xs i v = Some (xs[i := v])" using i by (simp add: store_def)
  have len: "(i + 1) + length vs \<le> length (xs[i := v])" using Cons.prems by simp
  have "store_bytes (xs[i := v]) (i + 1) vs =
          Some (take (i + 1) (xs[i := v]) @ vs @ drop (i + 1 + length vs) (xs[i := v]))"
    by (rule Cons.IH [OF len])
  moreover have "take (i + 1) (xs[i := v]) = take i xs @ [v]"
    using i by (simp add: take_Suc_conv_app_nth)
  moreover have "drop (i + 1 + length vs) (xs[i := v]) = drop (i + length (v # vs)) xs"
    by simp
  ultimately show ?case using step by simp
qed


lemma length_encode:
  "encode f c = Some vs \<Longrightarrow> length vs = unat (getBytesPerPixel f)"
  by (cases f) (auto simp add: encode_def split: option.splits)

lemma encode_convertible:
  assumes "convertible c" and "f \<noteq> Grayscale"
  shows "\<exists>vs. encode f c = Some vs"
  using assms by (cases f) (simp_all add: encode_def convertible_def to_uint8_def)


lemma setPixel_inside:
  assumes wf: "wf_image img" and x: "px < width img" and y: "py < height img"
    and enc: "encode (format img) c = Some vs"
  shows "setPixel img px py c =
           Some (img\<lparr>data :=
             take (getPixelIndex img px py) (data img) @ vs @
             drop (getPixelIndex img px py + length vs) (data img)\<rparr>)"
proof -
  have "getPixelIndex img px py + length vs \<le> length (data img)"
    using getPixelIndex_nat(2) [OF wf x y] by (simp add: length_encode [OF enc])
  then show ?thesis
    using x y by (simp add: setPixel_def setPixelUnsafe_def enc store_bytes_ok)
qed

lemma setPixel_wf:
  assumes wf: "wf_image img" and enc: "encode (format img) c = Some vs"
  shows "\<exists>img'. setPixel img px py c = Some img' \<and> wf_image img' \<and>
           width img' = width img \<and> height img' = height img \<and> format img' = format img"
proof (cases "px < width img \<and> py < height img")
  case True
  then have x: "px < width img" and y: "py < height img" by simp_all
  have le: "getPixelIndex img px py + length vs \<le> length (data img)"
    using getPixelIndex_nat(2) [OF wf x y] by (simp add: length_encode [OF enc])
  show ?thesis
    using wf le by (simp add: setPixel_inside [OF wf x y enc] wf_image_def)
next
  case False
  then show ?thesis using wf by (auto simp: setPixel_def)
qed

lemma load_in_range: "i < length xs \<Longrightarrow> load xs i = Some (xs ! i)"
  by (simp add: load_def)

lemma convertible_bytes:
  "convertible (Color (of_uint8 v0) (of_uint8 v1) (of_uint8 v2) (of_uint8 v3))"
  "convertible (Color3 (of_uint8 v0) (of_uint8 v1) (of_uint8 v2))"
  "convertible Color_default"
proof -
  have r: "- 1 < of_uint8 v" "of_uint8 v < 256" for v
    using of_uint8_range [of v] by simp_all
  show "convertible (Color (of_uint8 v0) (of_uint8 v1) (of_uint8 v2) (of_uint8 v3))"
    "convertible (Color3 (of_uint8 v0) (of_uint8 v1) (of_uint8 v2))"
    "convertible Color_default"
    by (simp_all add: convertible_def Color3_def Color_default_def r)
qed

lemma getPixel_wf:
  assumes wf: "wf_image img"
  shows "\<exists>c. getPixel img px py = Some c \<and> convertible c"
proof (cases "px < width img \<and> py < height img")
  case True
  then have x: "px < width img" and y: "py < height img" by simp_all
  have le: "getPixelIndex img px py + unat (getBytesPerPixel (format img)) \<le> length (data img)"
    by (rule getPixelIndex_nat(2) [OF wf x y])
  show ?thesis
    using le x y
    by (cases "format img")
      (simp_all add: getPixel_def getPixelUnsafe_def Let_def load_in_range convertible_bytes)
next
  case False
  then show ?thesis by (auto simp: getPixel_def convertible_bytes)
qed








text \<open>
  Claim C9. At a coordinate outside the buffer (such as \<open>x = width\<close>, \<open>y = 0\<close>)
  \<open>setPixel\<close> returns the image unchanged and \<open>getPixel\<close> returns the default colour
  \<open>Color()\<close>, whose channels are all \<open>1.0f\<close>: the colour \<open>Color::white()\<close> with full
  alpha. Neither call faults, whatever the buffer.
\<close>

theorem out_of_range_pixel_ignored:
  assumes "\<not> (px < width img \<and> py < height img)"
  shows "setPixel img px py c = Some img \<and> getPixel img px py = Some Color_default \<and>
         Color_default = Color_white \<and> Color_default = Color 1 1 1 1"
  using assms by (auto simp add: setPixel_def getPixel_def Color_default_def Color_white_def)

theorem out_of_range_pixel_ignored_witness:
  "setPixel (Image_new 10 10 RGBA) 10 0 (Color 1 0 0 1) = Some (Image_new 10 10 RGBA) \<and>
   getPixel (Image_new 10 10 RGBA) 10 0 = Some (Color 1 1 1 1)"
proof -
  have "\<not> ((10::uint) < width (Image_new 10 10 RGBA) \<and> (0::uint) < height (Image_new 10 10 RGBA))"
    by (simp add: Image_new_def)
  then show ?thesis
    using out_of_range_pixel_ignored [of 10 "Image_new 10 10 RGBA" 0 "Color 1 0 0 1"]
    by simp
qed

section \<open>Atlas packing\<close>

lemma copyPixels_wf:
  assumes "wf_image dst" and "wf_image src" and "format dst \<noteq> Grayscale"
  shows "\<exists>dst'. copyPixels dst src ox oy ps = Some dst' \<and> wf_image dst' \<and>
           width dst' = width dst \<and> height dst' = height dst \<and> format dst' = format dst"
  using assms
proof (induction ps arbitrary: dst)
  case Nil
  then show ?case by simp
next
  case (Cons p ps)
  obtain tx ty where p: "p = (tx, ty)" by (cases p)
  obtain c where c: "getPixel src tx ty = Some c" "convertible c"
    using getPixel_wf [OF Cons.prems(2)] by blast
  obtain vs where vs: "encode (format dst) c = Some vs"
    using encode_convertible [OF c(2) Cons.prems(3)] by blast
  obtain d1 where d1: "setPixel dst (ox + tx) (oy + ty) c = Some d1" "wf_image d1"
      "width d1 = width dst" "height d1 = height dst" "format d1 = format dst"
    using setPixel_wf [OF Cons.prems(1) vs] by blast
  have g1: "format d1 \<noteq> Grayscale" using d1(5) Cons.prems(3) by simp
  obtain d2 where d2: "copyPixels d1 src ox oy ps = Some d2" "wf_image d2"
      "width d2 = width d1" "height d2 = height d1" "format d2 = format d1"
    using Cons.IH [OF d1(2) Cons.prems(2) g1] by blast
  show ?case using p c d1 d2 by simp
qed

text \<open>
  \<open>addTexture\<close> on well-formed images never faults, and its flag, regions and index are
  those of \<open>placeRegion\<close>.
\<close>

lemma addTexture_placeRegion:
  assumes wfa: "wf_image (atlasImage atlas)" and wft: "wf_image texture"
    and fmt: "format (atlasImage atlas) = RGBA"
  shows "\<exists>atlas'. addTexture atlas nm texture =
             Some (fst (placeRegion (width (atlasImage atlas)) (height (atlasImage atlas))
                          (regions atlas, regionMap atlas) (nm, width texture, height texture)),
                   atlas') \<and>
           (regions atlas', regionMap atlas') =
             snd (placeRegion (width (atlasImage atlas)) (height (atlasImage atlas))
                    (regions atlas, regionMap atlas) (nm, width texture, height texture)) \<and>
           wf_image (atlasImage atlas') \<and>
           width (atlasImage atlas') = width (atlasImage atlas) \<and>
           height (atlasImage atlas') = height (atlasImage atlas) \<and>
           format (atlasImage atlas') = RGBA"
proof -
  obtain cx cy m where cur:
      "packCursor (width texture) (width (atlasImage atlas)) (regions atlas) = (cx, cy, m)"
    by (cases "packCursor (width texture) (width (atlasImage atlas)) (regions atlas)")
  have ng: "format (atlasImage atlas) \<noteq> Grayscale" using fmt by simp
  obtain img where img:
      "copyPixels (atlasImage atlas) texture cx cy (texels (width texture) (height texture)) = Some img"
      "wf_image img" "width img = width (atlasImage atlas)"
      "height img = height (atlasImage atlas)" "format img = format (atlasImage atlas)"
    using copyPixels_wf [OF wfa wft ng] by blast
  show ?thesis
  proof (cases "map_of (regionMap atlas) nm \<noteq> None \<or> cy + height texture > height (atlasImage atlas)")
    case True
    then have "addTexture atlas nm texture = Some (False, atlas)"
      using cur by (auto simp add: addTexture_def)
    moreover have "placeRegion (width (atlasImage atlas)) (height (atlasImage atlas))
        (regions atlas, regionMap atlas) (nm, width texture, height texture) =
        (False, regions atlas, regionMap atlas)"
      using True cur by (auto simp add: placeRegion_def)
    ultimately show ?thesis using wfa fmt by simp
  next
    case False
    then have "addTexture atlas nm texture =
        Some (True, atlas\<lparr>atlasImage := img,
          regions := regions atlas @
            [\<lparr>bounds = Rect cx cy (width texture) (height texture), name = nm\<rparr>],
          regionMap := AList.update nm (length (regions atlas)) (regionMap atlas)\<rparr>)"
      using cur img(1) by (simp add: addTexture_def)
    moreover have "placeRegion (width (atlasImage atlas)) (height (atlasImage atlas))
        (regions atlas, regionMap atlas) (nm, width texture, height texture) =
        (True, regions atlas @
            [\<lparr>bounds = Rect cx cy (width texture) (height texture), name = nm\<rparr>],
          AList.update nm (length (regions atlas)) (regionMap atlas))"
      using False cur by (simp add: placeRegion_def)
    ultimately show ?thesis using img(2-5) fmt by simp
  qed
qed

lemma addTextures_placeRegions:
  assumes "wf_image (atlasImage atlas)" and "format (atlasImage atlas) = RGBA"
    and "list_all (\<lambda>(nm, texture). wf_image texture) items"
  shows "\<exists>atlas'. addTextures atlas items =
             Some (fst (placeRegions (width (atlasImage atlas)) (height (atlasImage atlas))
                          (regions atlas, regionMap atlas) (sizes items)),
                   atlas') \<and>
           (regions atlas', regionMap atlas') =
             snd (placeRegions (width (atlasImage atlas)) (height (atlasImage atlas))
                    (regions atlas, regionMap atlas) (sizes items)) \<and>
           wf_image (atlasImage atlas') \<and>
           width (atlasImage atlas') = width (atlasImage atlas) \<and>
           height (atlasImage atlas') = height (atlasImage atlas)"
  using assms
proof (induction items arbitrary: atlas)
  case Nil
  then show ?case by (simp add: sizes_def)
next
  case (Cons item items)
  obtain nm texture where item: "item = (nm, texture)" by (cases item)
  have wft: "wf_image texture" and rest: "list_all (\<lambda>(nm, texture). wf_image texture) items"
    using Cons.prems(3) item by simp_all
  let ?aw = "width (atlasImage atlas)" and ?ah = "height (atlasImage atlas)"
  obtain ok rs m where pr:
      "placeRegion ?aw ?ah (regions atlas, regionMap atlas) (nm, width texture, height texture) = (ok, rs, m)"
    by (cases "placeRegion ?aw ?ah (regions atlas, regionMap atlas) (nm, width texture, height texture)")
  obtain a1 where a1: "addTexture atlas nm texture = Some (ok, a1)"
      "regions a1 = rs" "regionMap a1 = m" "wf_image (atlasImage a1)"
      "width (atlasImage a1) = ?aw" "height (atlasImage a1) = ?ah"
      "format (atlasImage a1) = RGBA"
    using addTexture_placeRegion [OF Cons.prems(1) wft Cons.prems(2), where nm = nm] pr by auto
  obtain oks st where prs: "placeRegions ?aw ?ah (rs, m) (sizes items) = (oks, st)"
    by (cases "placeRegions ?aw ?ah (rs, m) (sizes items)")
  obtain a2 where a2: "addTextures a1 items = Some (oks, a2)"
      "(regions a2, regionMap a2) = st" "wf_image (atlasImage a2)"
      "width (atlasImage a2) = ?aw" "height (atlasImage a2) = ?ah"
    using Cons.IH [OF a1(4) a1(7) rest] prs a1 by auto
  have "placeRegions ?aw ?ah (regions atlas, regionMap atlas) (sizes (item # items)) = (ok # oks, st)"
    using pr prs item by (simp add: sizes_def)
  moreover have "addTextures atlas (item # items) = Some (ok # oks, a2)"
    using item a1(1) a2(1) by simp
  ultimately show ?case using a2 by simp
qed

lemma wf_Image_new_small:
  "unat w * unat h * unat (getBytesPerPixel f) < 2 ^ 32 \<Longrightarrow> wf_image (Image_new w h f)"
proof -
  assume small: "unat w * unat h * unat (getBytesPerPixel f) < 2 ^ 32"
  have pos: "0 < unat (getBytesPerPixel f)" by (rule unat_bpp_pos)
  have "unat w * unat h \<le> unat w * unat h * unat (getBytesPerPixel f)" using pos by simp
  then have wh: "unat w * unat h < 2 ^ 32" using small by linarith
  have "unat (w * h) = unat w * unat h"
    using wh by (simp add: unat_mult_lem [THEN iffD1])
  then have "unat (w * h * getBytesPerPixel f) = unat w * unat h * unat (getBytesPerPixel f)"
    using small by (simp add: unat_mult_lem [THEN iffD1])
  then show ?thesis using small by (simp add: wf_image_def Image_new_def vector_resize_def)
qed

lemma create_same_size:
  assumes wf: "wf_image img"
  shows "create img (width img) (height img) (format img) = img"
proof -
  let ?W = "unat (width img)" and ?H = "unat (height img)"
  let ?B = "unat (getBytesPerPixel (format img))"
  have len: "length (data img) = ?W * ?H * ?B" and small: "?W * ?H * ?B < 2 ^ 32"
    using wf by (simp_all add: wf_image_def)
  have pos: "0 < ?B" by (rule unat_bpp_pos)
  have "?W * ?H \<le> ?W * ?H * ?B" using pos by simp
  then have wh: "?W * ?H < 2 ^ 32" using small by linarith
  have "unat (width img * height img) = ?W * ?H"
    using wh by (simp add: unat_mult_lem [THEN iffD1])
  then have "unat (width img * height img * getBytesPerPixel (format img)) = ?W * ?H * ?B"
    using small by (simp add: unat_mult_lem [THEN iffD1])
  then have "vector_resize (unat (width img * height img * getBytesPerPixel (format img))) (data img)
      = data img"
    using len by (simp add: vector_resize_def)
  then show ?thesis by (simp add: create_def)
qed

lemma clear_keeps_image:
  "wf_image (atlasImage atlas) \<Longrightarrow> atlasImage (clear atlas) = atlasImage atlas"
  by (simp add: clear_def create_same_size)

lemma three_adds_layout:
  "placeRegions 20 10 ([], []) [(''a'', 10, 10), (''b'', 10, 10), (''c'', 10, 10)] =
     ([True, True, True],
      [\<lparr>bounds = Rect 0 0 10 10, name = ''a''\<rparr>, \<lparr>bounds = Rect 10 0 10 10, name = ''b''\<rparr>,
       \<lparr>bounds = Rect 20 0 10 10, name = ''c''\<rparr>],
      [(''a'', 0), (''b'', 1), (''c'', 2)])"
  by (simp add: placeRegion_def packCursor_def packStep_def)

lemma four_adds_layout:
  "placeRegions 20 20 ([], []) [(''a'', 15, 10), (''b'', 5, 10), (''c'', 10, 10), (''d'', 5, 10)] =
     ([True, True, True, True],
      [\<lparr>bounds = Rect 0 0 15 10, name = ''a''\<rparr>, \<lparr>bounds = Rect 15 0 5 10, name = ''b''\<rparr>,
       \<lparr>bounds = Rect 5 10 10 10, name = ''c''\<rparr>, \<lparr>bounds = Rect 10 10 5 10, name = ''d''\<rparr>],
      [(''a'', 0), (''b'', 1), (''c'', 2), (''d'', 3)])"
  by (simp add: placeRegion_def packCursor_def packStep_def)

lemma new_atlas_facts:
  "regions (TextureAtlas_new w h) = []" "regionMap (TextureAtlas_new w h) = []"
  "width (atlasImage (TextureAtlas_new w h)) = w" "height (atlasImage (TextureAtlas_new w h)) = h"
  by (simp_all add: TextureAtlas_new_def Image_new_def)

lemma new_atlas_format: "format (atlasImage (TextureAtlas_new w h)) = RGBA"
  by (simp add: TextureAtlas_new_def Image_new_def)

lemma wf_new_atlas:
  "unat w * unat h * 4 < 2 ^ 32 \<Longrightarrow> wf_image (atlasImage (TextureAtlas_new w h))"
  using wf_Image_new_small [of w h RGBA] by (simp add: TextureAtlas_new_def)

lemma three_adds:
  "\<exists>atlas. addTextures (TextureAtlas_new 20 10)
       [(''a'', Image_new 10 10 RGBA), (''b'', Image_new 10 10 RGBA), (''c'', Image_new 10 10 RGBA)] =
       Some ([True, True, True], atlas) \<and>
     regions atlas =
       [\<lparr>bounds = Rect 0 0 10 10, name = ''a''\<rparr>, \<lparr>bounds = Rect 10 0 10 10, name = ''b''\<rparr>,
        \<lparr>bounds = Rect 20 0 10 10, name = ''c''\<rparr>] \<and>
     regionMap atlas = [(''a'', 0), (''b'', 1), (''c'', 2)] \<and>
     width (atlasImage atlas) = 20 \<and> height (atlasImage atlas) = 10"
proof -
  have wfa: "wf_image (atlasImage (TextureAtlas_new 20 10))"
    by (simp add: wf_new_atlas)
  have wft: "list_all (\<lambda>(nm, texture). wf_image texture)
      [(''a'', Image_new 10 10 RGBA), (''b'', Image_new 10 10 RGBA), (''c'', Image_new 10 10 RGBA)]"
    by (simp add: wf_Image_new_small)
  have sz: "sizes [(''a'', Image_new 10 10 RGBA), (''b'', Image_new 10 10 RGBA), (''c'', Image_new 10 10 RGBA)]
      = [(''a'', 10, 10), (''b'', 10, 10), (''c'', 10, 10)]"
    by (simp add: sizes_def Image_new_def)
  show ?thesis
    using addTextures_placeRegions [OF wfa new_atlas_format wft]
    unfolding sz new_atlas_facts three_adds_layout by auto
qed

lemma four_adds:
  "\<exists>atlas. addTextures (TextureAtlas_new 20 20)
       [(''a'', Image_new 15 10 RGBA), (''b'', Image_new 5 10 RGBA), (''c'', Image_new 10 10 RGBA),
        (''d'', Image_new 5 10 RGBA)] =
       Some ([True, True, True, True], atlas) \<and>
     regions atlas =
       [\<lparr>bounds = Rect 0 0 15 10, name = ''a''\<rparr>, \<lparr>bounds = Rect 15 0 5 10, name = ''b''\<rparr>,
        \<lparr>bounds = Rect 5 10 10 10, name = ''c''\<rparr>, \<lparr>bounds = Rect 10 10 5 10, name = ''d''\<rparr>] \<and>
     regionMap atlas = [(''a'', 0), (''b'', 1), (''c'', 2), (''d'', 3)] \<and>
     width (atlasImage atlas) = 20 \<and> height (atlasImage atlas) = 20"
proof -
  have wfa: "wf_image (atlasImage (TextureAtlas_new 20 20))"
    by (simp add: wf_new_atlas)
  have wft: "list_all (\<lambda>(nm, texture). wf_image texture)
      [(''a'', Image_new 15 10 RGBA), (''b'', Image_new 5 10 RGBA), (''c'', Image_new 10 10 RGBA),
        (''d'', Image_new 5 10 RGBA)]"
    by (simp add: wf_Image_new_small)
  have sz: "sizes [(''a'', Image_new 15 10 RGBA), (''b'', Image_new 5 10 RGBA), (''c'', Image_new 10 10 RGBA),
        (''d'', Image_new 5 10 RGBA)]
      = [(''a'', 15, 10), (''b'', 5, 10), (''c'', 10, 10), (''d'', 5, 10)]"
    by (simp add: sizes_def Image_new_def)
  show ?thesis
    using addTextures_placeRegions [OF wfa new_atlas_format wft]
    unfolding sz new_atlas_facts four_adds_layout by auto
qed

text \<open>The invariant does hold after the first two of these insertions.\<close>

lemma two_adds_invariant:
  "\<exists>atlas. addTextures (TextureAtlas_new 20 10)
       [(''a'', Image_new 10 10 RGBA), (''b'', Image_new 10 10 RGBA)] =
       Some ([True, True], atlas) \<and> atlas_invariant atlas"
proof -
  have wfa: "wf_image (atlasImage (TextureAtlas_new 20 10))"
    by (simp add: wf_new_atlas)
  have wft: "list_all (\<lambda>(nm, texture). wf_image texture)
      [(''a'', Image_new 10 10 RGBA), (''b'', Image_new 10 10 RGBA)]"
    by (simp add: wf_Image_new_small)
  have sz: "sizes [(''a'', Image_new 10 10 RGBA), (''b'', Image_new 10 10 RGBA)]
      = [(''a'', 10, 10), (''b'', 10, 10)]"
    by (simp add: sizes_def Image_new_def)
  have lay: "placeRegions 20 10 ([], []) [(''a'', 10, 10), (''b'', 10, 10)] =
     ([True, True],
      [\<lparr>bounds = Rect 0 0 10 10, name = ''a''\<rparr>, \<lparr>bounds = Rect 10 0 10 10, name = ''b''\<rparr>],
      [(''a'', 0), (''b'', 1)])"
    by (simp add: placeRegion_def packCursor_def packStep_def)
  obtain atlas where a: "addTextures (TextureAtlas_new 20 10)
       [(''a'', Image_new 10 10 RGBA), (''b'', Image_new 10 10 RGBA)] = Some ([True, True], atlas)"
     "regions atlas = [\<lparr>bounds = Rect 0 0 10 10, name = ''a''\<rparr>, \<lparr>bounds = Rect 10 0 10 10, name = ''b''\<rparr>]"
     "regionMap atlas = [(''a'', 0), (''b'', 1)]"
     "width (atlasImage atlas) = 20" "height (atlasImage atlas) = 10"
    using addTextures_placeRegions [OF wfa new_atlas_format wft]
    unfolding sz new_atlas_facts lay by auto
  have "atlas_invariant atlas"
    by (simp add: atlas_invariant_def a rect_inside_def rects_overlap_def index_consistent_def)
  then show ?thesis using a(1) by blast
qed

text \<open>
  Claim C1. On a 20 by 10 atlas, three \<open>addTexture\<close> calls with 10 by 10 images under the
  names a, b and c all return true: a is placed at (0,0) and b at (10,0), as the claim
  says, but the third call is accepted as well and records region c at (20,0), outside the
  atlas, instead of returning false and leaving two regions.
\<close>

theorem addTexture_third_accepted:
  "\<exists>atlas. addTextures (TextureAtlas_new 20 10)
       [(''a'', Image_new 10 10 RGBA), (''b'', Image_new 10 10 RGBA), (''c'', Image_new 10 10 RGBA)] =
       Some ([True, True, True], atlas) \<and>
     placed atlas =
       [(''a'', Rect 0 0 10 10), (''b'', Rect 10 0 10 10), (''c'', Rect 20 0 10 10)] \<and>
     width (atlasImage atlas) = 20 \<and> height (atlasImage atlas) = 10"
proof -
  obtain atlas where a: "addTextures (TextureAtlas_new 20 10)
       [(''a'', Image_new 10 10 RGBA), (''b'', Image_new 10 10 RGBA), (''c'', Image_new 10 10 RGBA)] =
       Some ([True, True, True], atlas)"
    "regions atlas =
       [\<lparr>bounds = Rect 0 0 10 10, name = ''a''\<rparr>, \<lparr>bounds = Rect 10 0 10 10, name = ''b''\<rparr>,
        \<lparr>bounds = Rect 20 0 10 10, name = ''c''\<rparr>]"
    "width (atlasImage atlas) = 20" "height (atlasImage atlas) = 10"
    using three_adds by blast
  have "placed atlas = [(''a'', Rect 0 0 10 10), (''b'', Rect 10 0 10 10), (''c'', Rect 20 0 10 10)]"
    by (simp add: placed_def a(2))
  then show ?thesis using a by blast
qed

text \<open>
  Claim C2. The atlas invariant fails on atlases reached by \<open>addTexture\<close> alone: after the
  three insertions above a region lies outside the image, and after inserting images of
  sizes 15 by 10, 5 by 10, 10 by 10 and 5 by 10 into a 20 by 20 atlas every region lies
  inside and two of them overlap.
\<close>

theorem atlas_invariant_broken:
  "(\<exists>atlas. addTextures (TextureAtlas_new 20 10)
       [(''a'', Image_new 10 10 RGBA), (''b'', Image_new 10 10 RGBA), (''c'', Image_new 10 10 RGBA)] =
       Some ([True, True, True], atlas) \<and>
     \<not> list_all (rect_inside (atlasImage atlas)) (map bounds (regions atlas)) \<and>
     \<not> atlas_invariant atlas) \<and>
   (\<exists>atlas. addTextures (TextureAtlas_new 20 20)
       [(''a'', Image_new 15 10 RGBA), (''b'', Image_new 5 10 RGBA), (''c'', Image_new 10 10 RGBA),
        (''d'', Image_new 5 10 RGBA)] =
       Some ([True, True, True, True], atlas) \<and>
     some_overlap (map bounds (regions atlas)) \<and>
     \<not> atlas_invariant atlas)"
proof -
  obtain a3 where a3: "addTextures (TextureAtlas_new 20 10)
       [(''a'', Image_new 10 10 RGBA), (''b'', Image_new 10 10 RGBA), (''c'', Image_new 10 10 RGBA)] =
       Some ([True, True, True], a3)"
    "regions a3 =
       [\<lparr>bounds = Rect 0 0 10 10, name = ''a''\<rparr>, \<lparr>bounds = Rect 10 0 10 10, name = ''b''\<rparr>,
        \<lparr>bounds = Rect 20 0 10 10, name = ''c''\<rparr>]"
    "width (atlasImage a3) = 20" "height (atlasImage a3) = 10"
    using three_adds by blast
  have out: "\<not> list_all (rect_inside (atlasImage a3)) (map bounds (regions a3))"
    by (simp add: a3 rect_inside_def)
  then have "\<not> atlas_invariant a3" by (simp add: atlas_invariant_def)
  then have first: "\<exists>atlas. addTextures (TextureAtlas_new 20 10)
       [(''a'', Image_new 10 10 RGBA), (''b'', Image_new 10 10 RGBA), (''c'', Image_new 10 10 RGBA)] =
       Some ([True, True, True], atlas) \<and>
     \<not> list_all (rect_inside (atlasImage atlas)) (map bounds (regions atlas)) \<and>
     \<not> atlas_invariant atlas"
    using a3(1) out by blast
  obtain a4 where a4: "addTextures (TextureAtlas_new 20 20)
       [(''a'', Image_new 15 10 RGBA), (''b'', Image_new 5 10 RGBA), (''c'', Image_new 10 10 RGBA),
        (''d'', Image_new 5 10 RGBA)] =
       Some ([True, True, True, True], a4)"
    "regions a4 =
       [\<lparr>bounds = Rect 0 0 15 10, name = ''a''\<rparr>, \<lparr>bounds = Rect 15 0 5 10, name = ''b''\<rparr>,
        \<lparr>bounds = Rect 5 10 10 10, name = ''c''\<rparr>, \<lparr>bounds = Rect 10 10 5 10, name = ''d''\<rparr>]"
    using four_adds by blast
  have ov: "some_overlap (map bounds (regions a4))"
    by (simp add: a4 rects_overlap_def)
  then have "\<not> atlas_invariant a4" by (simp add: atlas_invariant_def)
  then have second: "\<exists>atlas. addTextures (TextureAtlas_new 20 20)
       [(''a'', Image_new 15 10 RGBA), (''b'', Image_new 5 10 RGBA), (''c'', Image_new 10 10 RGBA),
        (''d'', Image_new 5 10 RGBA)] =
       Some ([True, True, True, True], atlas) \<and>
     some_overlap (map bounds (regions atlas)) \<and>
     \<not> atlas_invariant atlas"
    using a4(1) ov by blast
  show ?thesis using first second by blast
qed

text \<open>
  Claim C3. \<open>clear\<close> empties the regions and the name index, but the atlas image keeps its
  bytes: after a white pixel was inserted into a 1 by 1 atlas, the cleared atlas still holds
  the four bytes 255, and \<open>create\<close> with the dimensions and format an image already has
  returns the image as it was.
\<close>

theorem clear_keeps_pixels:
  "\<exists>atlas. addTexture (TextureAtlas_new 1 1) ''a'' white1 = Some (True, atlas) \<and>
     data (atlasImage atlas) = [255, 255, 255, 255] \<and>
     regions (clear atlas) = [] \<and> regionMap (clear atlas) = [] \<and>
     data (atlasImage (clear atlas)) = [255, 255, 255, 255] \<and>
     create white1 1 1 RGBA = white1"
proof -
  have tex: "texels 1 1 = [(0, 0)]" by (simp add: texels_def)
  have get: "getPixel white1 0 0 = Some (Color 255 255 255 255)"
    by (simp add: getPixel_def getPixelUnsafe_def getPixelIndex_def load_def white1_def
        of_uint8_def)
  have rep: "replicate 4 (0::uint8) = [0, 0, 0, 0]" by (simp add: numeral_eq_Suc)
  have enc: "encode RGBA (Color 255 255 255 255) = Some [255, 255, 255, 255]"
    by (simp add: encode_def to_uint8_def trunc_zero_def)
  have set: "setPixel (Image_new 1 1 RGBA) 0 0 (Color 255 255 255 255) = Some white1"
    by (simp add: setPixel_def setPixelUnsafe_def getPixelIndex_def store_def white1_def
        Image_new_def vector_resize_def rep enc)
  have add: "addTexture (TextureAtlas_new 1 1) ''a'' white1 =
      Some (True, \<lparr>atlasImage = white1,
        regions = [\<lparr>bounds = Rect 0 0 1 1, name = ''a''\<rparr>], regionMap = [(''a'', 0)]\<rparr>)"
  proof -
    have dw: "width white1 = 1" "height white1 = 1" by (simp_all add: white1_def)
    have di: "width (Image_new 1 1 RGBA) = 1" "height (Image_new 1 1 RGBA) = 1"
      by (simp_all add: Image_new_def)
    show ?thesis
      by (simp add: addTexture_def TextureAtlas_new_def packCursor_def dw di tex get set)
  qed
  have cr: "create white1 1 1 RGBA = white1"
    by (simp add: create_def white1_def vector_resize_def)
  have "data (atlasImage (clear \<lparr>atlasImage = white1,
        regions = [\<lparr>bounds = Rect 0 0 1 1, name = ''a''\<rparr>], regionMap = [(''a'', 0)]\<rparr>)) =
      [255, 255, 255, 255]"
    by (simp add: clear_def create_def white1_def vector_resize_def)
  then show ?thesis using add cr by (simp add: clear_def white1_def)
qed

section \<open>The blur kernel\<close>









text \<open>
  The rounding of the product decides the size: \<open>11184811 / 2^26\<close> is a \<open>float\<close> a little
  above \<open>1 / 6\<close>, its exact product with 6 is above 1, and the \<open>float\<close> product is 1.
\<close>

lemma kernelSize_rounded_product:
  "fl (11184811 / 2 ^ 26) = 11184811 / 2 ^ 26 \<and> kernelSize (11184811 / 2 ^ 26) = 1 \<and>
   \<lceil>11184811 / 2 ^ 26 * (6::real)\<rceil> = 2"
proof -
  have a: "fl (11184811 / 2 ^ 26) = 11184811 / 2 ^ 26"
    using fl_normal [of "- 3" "11184811 / 2 ^ 26"]
    by (simp add: round_even_def Let_def power_int_minus)
  have "fl (11184811 / 2 ^ 26 * 6) = 1"
    using fl_normal [of 0 "11184811 / 2 ^ 26 * 6"]
    by (simp add: round_even_def Let_def power_int_minus)
  then have b: "kernelSize (11184811 / 2 ^ 26) = 1" by (simp add: kernelSize_def)
  have c: "\<lceil>11184811 / 2 ^ 26 * (6::real)\<rceil> = 2" by (simp add: ceiling_eq_iff)
  show ?thesis using a b c by simp
qed











text \<open>Without the bound on the coordinate the offsets are not these.\<close>

lemma tapOffsets_wrap: "tapOffsets (2 ^ 31 - 2) 6 \<noteq> [- 3..2]"
proof -
  have "srcCoord (2 ^ 31 - 2) 5 6 = - (2 ^ 31)"
    by (simp add: srcCoord_def signed_divide_int_def)
  then have "tapOffsets (2 ^ 31 - 2) 6 ! 5 \<noteq> [- 3..2] ! 5"
    by (simp add: tapOffsets_def upto_rec1)
  then show ?thesis by auto
qed




section \<open>Normalisation and draws of the gradient noise\<close>

lemma noiseAt_no_octaves:
  "octaves \<le> 0 \<Longrightarrow> noiseAt grads w h scale octaves px py = 0"
  by (simp add: noiseAt_def)

lemma texels_nonempty:
  assumes "0 < w" and "0 < h"
  shows "\<exists>ps. texels w h = (0, 0) # ps"
proof -
  have w: "0 < unat w" and h: "0 < unat h" using assms by (simp_all add: unat_gt_0)
  have "[0..<unat h] = 0 # [1..<unat h]" using h by (simp add: upt_conv_Cons)
  moreover have "[0..<unat w] = 0 # [1..<unat w]" using w by (simp add: upt_conv_Cons)
  ultimately show ?thesis by (simp add: texels_def)
qed

lemma fold_min_zero:
  "0 \<le> m \<Longrightarrow> fold (\<lambda>p acc. min acc (0::real)) ps m = (if ps = [] then m else 0)"
proof (induction ps arbitrary: m)
  case Nil
  then show ?case by simp
next
  case (Cons p ps)
  have m0: "min m 0 = 0" using Cons.prems by simp
  have "fold (\<lambda>p acc. min acc (0::real)) ps 0 = 0"
    using Cons.IH [of 0] by simp
  then show ?case by (simp add: m0)
qed

lemma fold_max_zero:
  "m \<le> 0 \<Longrightarrow> fold (\<lambda>p acc. max acc (0::real)) ps m = (if ps = [] then m else 0)"
proof (induction ps arbitrary: m)
  case Nil
  then show ?case by simp
next
  case (Cons p ps)
  have m0: "max m 0 = 0" using Cons.prems by simp
  have "fold (\<lambda>p acc. max acc (0::real)) ps 0 = 0"
    using Cons.IH [of 0] by simp
  then show ?case by (simp add: m0)
qed

lemma FLT_MAX_pos: "0 \<le> FLT_MAX"
  by (simp add: FLT_MAX_def)

text \<open>
  Claim C10. A call of \<open>generatePerlinNoise\<close> with \<open>octaves \<le> 0\<close> on an image with at
  least one pixel leaves every accumulator at zero, so the minimum and the maximum are
  both zero and the normalisation of the first pixel divides zero by a zero range.
\<close>

theorem perlin_zero_octaves_divides_by_zero:
  assumes "octaves \<le> 0" and "0 < w" and "0 < h"
  shows "generatePerlinNoise draws w h scale octaves = Inl ZeroRange"
proof -
  obtain ps where ps: "texels w h = (0, 0) # ps"
    using texels_nonempty [OF assms(2,3)] by blast
  have noise: "noiseAt (gradients draws) w h scale octaves = (\<lambda>px py. 0)"
    using assms(1) by (simp add: noiseAt_no_octaves fun_eq_iff)
  have mn: "fold (\<lambda>(px, py) acc. min acc (0::real)) (texels w h) FLT_MAX = 0"
    using fold_min_zero [OF FLT_MAX_pos, of "texels w h"] ps by (simp add: case_prod_unfold)
  have mx: "fold (\<lambda>(px, py) acc. max acc (0::real)) (texels w h) (- FLT_MAX) = 0"
    using fold_max_zero [of "- FLT_MAX" "texels w h"] FLT_MAX_pos ps
    by (simp add: case_prod_unfold)
  have "generatePerlinNoise draws w h scale octaves =
      normalizePixels (Image_new w h Grayscale) (\<lambda>px py. 0) 0 0 (texels w h)"
    by (simp add: generatePerlinNoise_def Let_def noise mn mx)
  then show ?thesis by (simp add: ps)
qed

theorem perlin_zero_octaves_divides_by_zero_witness:
  "generatePerlinNoise (\<lambda>i. 0) 1 1 1 0 = Inl ZeroRange"
  using perlin_zero_octaves_divides_by_zero [of 0 1 1 "\<lambda>i. 0" 1] by simp

lemma gradients_cong:
  assumes "\<forall>i<256. d1 i = d2 i"
  shows "gradients d1 = gradients d2"
  using assms by (simp add: gradients_def)

lemma length_gradients: "length (gradients draws) = 256"
  by (simp add: gradients_def)

lemma gradients_nth:
  "i < 256 \<Longrightarrow> gradients draws ! i = (cos (draws i * 2 * 3.14159), sin (draws i * 2 * 3.14159))"
  by (simp add: gradients_def Let_def)

lemma gradients_first: "gradients draws ! 0 = (cos (draws 0 * 2 * 3.14159), sin (draws 0 * 2 * 3.14159))"
  by (rule gradients_nth) simp

subsection \<open>A two-pixel image\<close>

text \<open>
  A 2 by 1 image, scale 1, one octave. Pixel \<open>(0, 0)\<close> lies on a lattice point, where the
  noise is zero; pixel \<open>(1, 0)\<close> lies half way between the lattice points 0 and 1, where
  the noise is a quarter of the difference of the first components of gradients 0 and 1.
\<close>

lemma texels_2_1: "texels 2 1 = [(0, 0), (1, 0)]"
proof -
  have "[0..<2] = [0, 1]" by (simp add: upt_conv_Cons)
  then show ?thesis by (simp add: texels_def)
qed

lemma noise_origin: "noiseAt grads 2 1 1 1 0 0 = 0"
  by (simp add: noiseAt_def octaveValue_def Let_def fade_def lerp_def)

lemma noise_half: "noiseAt grads 2 1 1 1 1 0 = (fst (grads ! 0) - fst (grads ! 1)) / 4"
proof -
  have f: "\<lfloor>1 / 2 :: real\<rfloor> = 0" by simp
  have fd: "fade (1 / 2) = 1 / 2" by (simp add: fade_def)
  have "octaveValue grads 2 1 1 0 1 0 =
      lerp 0 (lerp (1 / 2) (fst (grads ! 0) * (1 / 2)) (fst (grads ! 1) * (1 / 2 - 1)))
        (lerp (1 / 2) (fst (grads ! 1) * (1 / 2) + snd (grads ! 1) * (0 - 1))
           (fst (grads ! 2) * (1 / 2 - 1) + snd (grads ! 2) * (0 - 1)))"
    by (simp add: octaveValue_def Let_def f fd fade_def)
  also have "\<dots> = (fst (grads ! 0) - fst (grads ! 1)) / 4"
    by (simp add: lerp_def field_simps)
  finally show ?thesis by (simp add: noiseAt_def)
qed

lemma cos_quarter_turn: "cos (1 / 4 * 2 * 3.14159 :: real) < 1"
proof -
  have "(1 / 4 * 2 * 3.14159 :: real) < 2" by simp
  then have "(1 / 4 * 2 * 3.14159 :: real) \<le> pi" using pi_ge_two by linarith
  then have "cos (1 / 4 * 2 * 3.14159 :: real) < cos 0"
    by (intro cos_monotone_0_pi) simp_all
  then show ?thesis by simp
qed

lemma Image_new_2_1: "Image_new 2 1 Grayscale = \<lparr>width = 2, height = 1, format = Grayscale, data = [0, 0]\<rparr>"
proof -
  have "replicate 2 (0::uint8) = [0, 0]" by (simp add: numeral_2_eq_2)
  then show ?thesis by (simp add: Image_new_def vector_resize_def)
qed

lemma of_uint8_255: "of_uint8 255 = 255" "of_uint8 0 = 0"
  by (simp_all add: of_uint8_def)

lemma setPixel_gray_0:
  "setPixel \<lparr>width = 2, height = 1, format = Grayscale, data = [a, b]\<rparr> 0 0 (Color3 0 0 0) =
     Some \<lparr>width = 2, height = 1, format = Grayscale, data = [0, b]\<rparr>"
  by (simp add: setPixel_def setPixelUnsafe_def encode_def Color3_def luminance_0
      getPixelIndex_def store_def)

lemma setPixel_gray_255:
  "setPixel \<lparr>width = 2, height = 1, format = Grayscale, data = [a, b]\<rparr> 0 0 (Color3 255 255 255) =
     Some \<lparr>width = 2, height = 1, format = Grayscale, data = [255, b]\<rparr>"
  by (simp add: setPixel_def setPixelUnsafe_def encode_def Color3_def luminance_255
      getPixelIndex_def store_def)

lemma setPixel_gray_0': 
  "setPixel \<lparr>width = 2, height = 1, format = Grayscale, data = [a, b]\<rparr> 1 0 (Color3 0 0 0) =
     Some \<lparr>width = 2, height = 1, format = Grayscale, data = [a, 0]\<rparr>"
  by (simp add: setPixel_def setPixelUnsafe_def encode_def Color3_def luminance_0
      getPixelIndex_def store_def)

lemma setPixel_gray_255':
  "setPixel \<lparr>width = 2, height = 1, format = Grayscale, data = [a, b]\<rparr> 1 0 (Color3 255 255 255) =
     Some \<lparr>width = 2, height = 1, format = Grayscale, data = [a, 255]\<rparr>"
  by (simp add: setPixel_def setPixelUnsafe_def encode_def Color3_def luminance_255
      getPixelIndex_def store_def)

text \<open>The noise at the second pixel is positive: the image is black, white.\<close>

lemma perlin_two_pixels_up:
  assumes "0 < v" and "noise 0 0 = 0" and "noise 1 0 = v"
  shows "(let minVal = fold (\<lambda>(px, py) m. min m (noise px py)) (texels 2 1) FLT_MAX;
              maxVal = fold (\<lambda>(px, py) m. max m (noise px py)) (texels 2 1) (- FLT_MAX)
          in normalizePixels (Image_new 2 1 Grayscale) noise minVal (maxVal - minVal) (texels 2 1)) =
         Inr \<lparr>width = 2, height = 1, format = Grayscale, data = [0, 255]\<rparr>"
proof -
  have m: "min FLT_MAX 0 = 0" "max (- FLT_MAX) 0 = 0" using FLT_MAX_pos by simp_all
  have mv: "min 0 v = 0" "max 0 v = v" using assms(1) by simp_all
  have v: "v \<noteq> 0" using assms(1) by simp
  show ?thesis
    by (simp add: texels_2_1 assms(2,3) m mv v Image_new_2_1 of_uint8_255
        setPixel_gray_0 setPixel_gray_255')
qed

text \<open>The noise at the second pixel is negative: the image is white, black.\<close>

lemma perlin_two_pixels_down:
  assumes "v < 0" and "noise 0 0 = 0" and "noise 1 0 = v"
  shows "(let minVal = fold (\<lambda>(px, py) m. min m (noise px py)) (texels 2 1) FLT_MAX;
              maxVal = fold (\<lambda>(px, py) m. max m (noise px py)) (texels 2 1) (- FLT_MAX)
          in normalizePixels (Image_new 2 1 Grayscale) noise minVal (maxVal - minVal) (texels 2 1)) =
         Inr \<lparr>width = 2, height = 1, format = Grayscale, data = [255, 0]\<rparr>"
proof -
  have m: "min FLT_MAX 0 = 0" "max (- FLT_MAX) 0 = 0" using FLT_MAX_pos by simp_all
  have mv: "min 0 v = v" "max 0 v = 0" using assms(1) by simp_all
  have v: "v \<noteq> 0" using assms(1) by simp
  show ?thesis
    by (simp add: texels_2_1 assms(2,3) m mv v Image_new_2_1 of_uint8_255
        setPixel_gray_255 setPixel_gray_0')
qed

lemma perlin_black_white:
  assumes "draws 0 = 0" and "draws 1 = 1 / 4"
  shows "generatePerlinNoise draws 2 1 1 1 =
           Inr \<lparr>width = 2, height = 1, format = Grayscale, data = [0, 255]\<rparr>"
proof -
  let ?noise = "noiseAt (gradients draws) 2 1 1 1"
  have g0: "fst (gradients draws ! 0) = 1" by (simp add: gradients_nth assms(1))
  have "gradients draws ! 1 = (cos (draws 1 * 2 * 3.14159), sin (draws 1 * 2 * 3.14159))"
    by (rule gradients_nth) simp
  then have g1: "fst (gradients draws ! 1) = cos (1 / 4 * 2 * 3.14159)"
    by (simp only: assms(2) fst_conv)
  have v: "0 < ?noise 1 0" unfolding noise_half g0 g1 using cos_quarter_turn by simp
  show ?thesis
    unfolding generatePerlinNoise_def
    using perlin_two_pixels_up [where noise = ?noise and v = "?noise 1 0", OF v noise_origin refl] by (simp add: Let_def)
qed

lemma perlin_white_black:
  assumes "draws 0 = 1 / 4" and "draws 1 = 0"
  shows "generatePerlinNoise draws 2 1 1 1 =
           Inr \<lparr>width = 2, height = 1, format = Grayscale, data = [255, 0]\<rparr>"
proof -
  let ?noise = "noiseAt (gradients draws) 2 1 1 1"
  have g0: "fst (gradients draws ! 0) = cos (1 / 4 * 2 * 3.14159)"
    by (simp add: gradients_nth assms(1))
  have "gradients draws ! 1 = (cos (draws 1 * 2 * 3.14159), sin (draws 1 * 2 * 3.14159))"
    by (rule gradients_nth) simp
  then have "fst (gradients draws ! 1) = cos (0 * 2 * 3.14159)"
    by (simp only: assms(2) fst_conv)
  then have g1: "fst (gradients draws ! 1) = 1" by simp
  have v: "?noise 1 0 < 0" unfolding noise_half g0 g1 using cos_quarter_turn by simp
  show ?thesis
    unfolding generatePerlinNoise_def
    using perlin_two_pixels_down [where noise = ?noise and v = "?noise 1 0", OF v noise_origin refl] by (simp add: Let_def)
qed

text \<open>
  Claim C5, as amended. \<open>generatePerlinNoise\<close> has no seed parameter. Its gradient table
  has 256 entries, one for each of the first 256 values drawn from its generator, which
  is seeded from \<open>std::random_device\<close>. Two calls with the same arguments whose first 256
  draws agree build the same gradient table and have the same outcome: they return the
  same buffer, or they both fail in the normalisation.
\<close>

theorem perlin_determined_by_draws:
  assumes "\<forall>i<256. d1 i = d2 i"
  shows "length (gradients d1) = 256 \<and> gradients d1 = gradients d2 \<and>
         generatePerlinNoise d1 w h scale octaves = generatePerlinNoise d2 w h scale octaves"
  using gradients_cong [OF assms] by (simp add: generatePerlinNoise_def length_gradients)

theorem perlin_determined_by_draws_witness:
  "generatePerlinNoise (\<lambda>i. if i = 0 then 0 else 1 / 4) 2 1 1 1 =
     Inr \<lparr>width = 2, height = 1, format = Grayscale, data = [0, 255]\<rparr> \<and>
   generatePerlinNoise (\<lambda>i. if i = 0 then 0 else if i < 256 then 1 / 4 else 3 / 4) 2 1 1 1 =
     Inr \<lparr>width = 2, height = 1, format = Grayscale, data = [0, 255]\<rparr>"
proof -
  have "generatePerlinNoise (\<lambda>i. if i = 0 then 0 else 1 / 4) 2 1 1 1 =
      Inr \<lparr>width = 2, height = 1, format = Grayscale, data = [0, 255]\<rparr>"
    by (rule perlin_black_white) simp_all
  then show ?thesis
    using perlin_determined_by_draws [of "\<lambda>i. if i = 0 then 0 else 1 / 4"
        "\<lambda>i. if i = 0 then 0 else if i < 256 then 1 / 4 else 3 / 4" 2 1 1 1]
    by simp
qed

text \<open>
  Claim C5 as stated fails: the arguments of the function do not determine the gradient
  table, which differs between a run whose generator returns 0 and a run whose generator
  returns 1/4.
\<close>

theorem gradients_depend_on_draws:
  "gradients (\<lambda>i. 0) \<noteq> gradients (\<lambda>i. 1 / 4)"
proof
  assume eq: "gradients (\<lambda>i. 0) = gradients (\<lambda>i. 1 / 4)"
  have "gradients (\<lambda>i. 0) ! 0 = gradients (\<lambda>i. 1 / 4) ! 0" using eq by simp
  then have "sin (1 / 4 * 2 * 3.14159 :: real) = 0"
    unfolding gradients_first by simp
  moreover have "0 < sin (1 / 4 * 2 * 3.14159 :: real)"
  proof (rule sin_gt_zero)
    show "0 < (1 / 4 * 2 * 3.14159 :: real)" by simp
    have "(1 / 4 * 2 * 3.14159 :: real) < 2" by simp
    then show "(1 / 4 * 2 * 3.14159 :: real) < pi" using pi_ge_two by linarith
  qed
  ultimately show False by simp
qed

text \<open>
  The difference reaches the pixels: with the same arguments, a run whose first two
  draws are 0 and 1/4 and a run whose first two draws are 1/4 and 0 return different
  buffers.
\<close>

lemma perlin_buffers_differ:
  "generatePerlinNoise (\<lambda>i. if i = 0 then 0 else 1 / 4) 2 1 1 1 \<noteq>
   generatePerlinNoise (\<lambda>i. if i = 0 then 1 / 4 else 0) 2 1 1 1"
proof -
  have "generatePerlinNoise (\<lambda>i. if i = 0 then 0 else 1 / 4) 2 1 1 1 =
      Inr \<lparr>width = 2, height = 1, format = Grayscale, data = [0, 255]\<rparr>"
    by (rule perlin_black_white) simp_all
  moreover have "generatePerlinNoise (\<lambda>i. if i = 0 then 1 / 4 else 0) 2 1 1 1 =
      Inr \<lparr>width = 2, height = 1, format = Grayscale, data = [255, 0]\<rparr>"
    by (rule perlin_white_black) simp_all
  ultimately show ?thesis by simp
qed

end
